theory Spec2Isabelle
  imports Main
begin

section \<open>The JavaScript values held by the version variables\<close>

text \<open>
  The migration controller of \<^verbatim>\<open>src/lib/connection.js\<close> (class
  \<^verbatim>\<open>MigrationController\<close>) compares, adds and subtracts values that may be a number,
  \<^verbatim>\<open>null\<close> (no row in the \<^verbatim>\<open>migrations\<close> table) or \<^verbatim>\<open>undefined\<close> (an omitted
  argument, or a failed read). Numbers are modelled as integers together with \<^verbatim>\<open>NaN\<close>;
  fractional numbers are outside the model. The \<^verbatim>\<open>version\<close> parameter may also be the
  string \<^verbatim>\<open>'latest'\<close>.
\<close>

datatype jsval = Undefined | Null | NaN | Num int

datatype version_arg = Latest | Val jsval

text \<open>\<^verbatim>\<open>ToNumber\<close>: \<open>None\<close> stands for \<^verbatim>\<open>NaN\<close>.\<close>

fun to_number :: "jsval \<Rightarrow> int option" where
  "to_number Undefined = None"
| "to_number Null = Some 0"
| "to_number NaN = None"
| "to_number (Num i) = Some i"

fun of_number :: "int option \<Rightarrow> jsval" where
  "of_number None = NaN"
| "of_number (Some i) = Num i"

definition js_isNaN :: "jsval \<Rightarrow> bool" where
  "js_isNaN v = (to_number v = None)"

text \<open>\<^verbatim>\<open>a < b\<close>, \<^verbatim>\<open>a > b\<close> and \<^verbatim>\<open>a <= b\<close> on non-strings: false as soon as one side is \<^verbatim>\<open>NaN\<close>.\<close>

definition js_lt :: "jsval \<Rightarrow> jsval \<Rightarrow> bool" where
  "js_lt a b = (case (to_number a, to_number b) of (Some x, Some y) \<Rightarrow> x < y | _ \<Rightarrow> False)"

definition js_gt :: "jsval \<Rightarrow> jsval \<Rightarrow> bool" where
  "js_gt a b = (case (to_number a, to_number b) of (Some x, Some y) \<Rightarrow> x > y | _ \<Rightarrow> False)"

definition js_le :: "jsval \<Rightarrow> jsval \<Rightarrow> bool" where
  "js_le a b = (case (to_number a, to_number b) of (Some x, Some y) \<Rightarrow> x \<le> y | _ \<Rightarrow> False)"

text \<open>\<^verbatim>\<open>a === b\<close>: same type and same value, and \<^verbatim>\<open>NaN\<close> equals nothing.\<close>

fun strict_eq :: "jsval \<Rightarrow> jsval \<Rightarrow> bool" where
  "strict_eq Undefined Undefined = True"
| "strict_eq Null Null = True"
| "strict_eq (Num i) (Num j) = (i = j)"
| "strict_eq _ _ = False"

text \<open>\<^verbatim>\<open>a + b\<close> and \<^verbatim>\<open>a - b\<close> where no operand is a string, and \<^verbatim>\<open>Math.abs\<close>.\<close>

definition js_add :: "jsval \<Rightarrow> jsval \<Rightarrow> jsval" where
  "js_add a b = of_number
     (case (to_number a, to_number b) of (Some x, Some y) \<Rightarrow> Some (x + y) | _ \<Rightarrow> None)"

definition js_sub :: "jsval \<Rightarrow> jsval \<Rightarrow> jsval" where
  "js_sub a b = of_number
     (case (to_number a, to_number b) of (Some x, Some y) \<Rightarrow> Some (x - y) | _ \<Rightarrow> None)"

definition js_abs :: "jsval \<Rightarrow> jsval" where
  "js_abs a = of_number (case to_number a of Some x \<Rightarrow> Some \<bar>x\<bar> | None \<Rightarrow> None)"

text \<open>\<^verbatim>\<open>a || b\<close>: \<^verbatim>\<open>undefined\<close>, \<^verbatim>\<open>null\<close>, \<^verbatim>\<open>NaN\<close> and \<^verbatim>\<open>0\<close> are falsy.\<close>

fun falsy :: "jsval \<Rightarrow> bool" where
  "falsy Undefined = True"
| "falsy Null = True"
| "falsy NaN = True"
| "falsy (Num i) = (i = 0)"

definition js_or :: "jsval \<Rightarrow> jsval \<Rightarrow> jsval" where
  "js_or a b = (if falsy a then b else a)"

text \<open>
  \<^verbatim>\<open>xs[k]\<close>: the element at an integer index inside the array, and \<^verbatim>\<open>undefined\<close>
  (\<open>None\<close>) for every other key.
\<close>

fun js_index :: "'a list \<Rightarrow> jsval \<Rightarrow> 'a option" where
  "js_index xs (Num i) = (if 0 \<le> i \<and> i < int (length xs) then Some (xs ! nat i) else None)"
| "js_index xs _ = None"

text \<open>
  \<^verbatim>\<open>xs.slice(a, b)\<close>: both bounds go through \<^verbatim>\<open>ToIntegerOrInfinity\<close> (\<^verbatim>\<open>NaN\<close> becomes 0),
  a negative bound counts from the end, bounds are clamped to the array, and an
  \<^verbatim>\<open>undefined\<close> end is the length.
\<close>

definition to_integer :: "jsval \<Rightarrow> int" where
  "to_integer v = (case to_number v of None \<Rightarrow> 0 | Some i \<Rightarrow> i)"

definition rel_index :: "int \<Rightarrow> int \<Rightarrow> int" where
  "rel_index len i = (if i < 0 then max (len + i) 0 else min i len)"

definition js_slice :: "'a list \<Rightarrow> jsval \<Rightarrow> jsval \<Rightarrow> 'a list" where
  "js_slice xs a b =
     (let len = int (length xs);
          k = rel_index len (to_integer a);
          final = (if b = Undefined then len else rel_index len (to_integer b))
      in take (nat (final - k)) (drop (nat k) xs))"

section \<open>Migration units, the tracking table and what an invocation leaves behind\<close>

text \<open>
  A migration unit (\<^verbatim>\<open>src/unnamed/part_000\<close>, class \<^verbatim>\<open>Migration\<close>) has a class name and
  two actions. An action works on the database schema, of an arbitrary type \<open>'db\<close>; it
  either completes or throws (first component \<open>False\<close>), and in both cases leaves a schema
  behind.
\<close>

record 'db migration =
  cname :: string
  up :: "'db \<Rightarrow> bool \<times> 'db"
  down :: "'db \<Rightarrow> bool \<times> 'db"

text \<open>The lines written with \<^verbatim>\<open>console.log\<close>, by their template.\<close>

datatype line =
    Starting bool string
  | CannotGetMigrations string
  | CannotGetVersion string
  | AlreadyLatest string
  | NotYetMigrated string
  | AlreadyGiven string
  | UnitDone string bool
  | UnitFailed string
  | Finished bool string jsval
  | ErrorDump

text \<open>
  What an invocation does that can be observed from outside, in order: console lines and
  the queries that write to the \<^verbatim>\<open>migrations\<close> table.
\<close>

datatype event = Log line | Insert string jsval | Update string jsval

text \<open>The messages of the \<^verbatim>\<open>MigrationError\<close>s that \<^verbatim>\<open>_doMigration\<close> throws.\<close>

datatype migration_error =
    ProvideModule
  | ProvideValidVersion
  | CannotRollbackToLatest
  | CannotMigrateToPrevious
  | CannotRollbackToLater

datatype outcome = Returned | Thrown migration_error

text \<open>
  The state: the schema the units act on and the rows \<^verbatim>\<open>(module, version)\<close> of the
  \<^verbatim>\<open>migrations\<close> table, in insertion order.
\<close>

record 'db world =
  schema :: 'db
  table :: "(string \<times> jsval) list"

text \<open>
  The collaborators: what \<^verbatim>\<open>_getMigrations\<close> finds for a module (\<open>None\<close> when reading the
  directory or importing a file throws), and whether queries that read and write the
  \<^verbatim>\<open>migrations\<close> table succeed.
\<close>

record 'db env =
  loader :: "string \<Rightarrow> 'db migration list option"
  read_ok :: bool
  write_ok :: bool

record 'db result =
  outcome :: outcome
  events :: "event list"
  final :: "'db world"

section \<open>The controller\<close>

text \<open>
  The private methods \<^verbatim>\<open>_getMigrations\<close>, \<^verbatim>\<open>_doMigration\<close>, \<^verbatim>\<open>_migrateMany\<close>,
  \<^verbatim>\<open>_runMigration\<close> and \<^verbatim>\<open>_updateMigrationVersion\<close> keep their names without the
  leading underscore.
\<close>

text \<open>\<^verbatim>\<open>getVersion\<close>: the version of the first row of the module, \<^verbatim>\<open>null\<close> without a row,
  \<^verbatim>\<open>undefined\<close> (after two console lines) when the query throws.\<close>

definition getVersion :: "'db env \<Rightarrow> string \<Rightarrow> (string \<times> jsval) list \<Rightarrow> jsval \<times> event list" where
  "getVersion e moduleName tbl =
     (if read_ok e
      then (case map_of tbl moduleName of None \<Rightarrow> Null | Some v \<Rightarrow> v, [])
      else (Undefined, [Log (CannotGetVersion moduleName), Log ErrorDump]))"

definition getMigrations :: "'db env \<Rightarrow> string \<Rightarrow> 'db migration list option \<times> event list" where
  "getMigrations e moduleName =
     (case loader e moduleName of
        Some ms \<Rightarrow> (Some ms, [])
      | None \<Rightarrow> (None, [Log (CannotGetMigrations moduleName), Log ErrorDump]))"

text \<open>
  What a call of \<^verbatim>\<open>_runMigration\<close> or \<^verbatim>\<open>_migrateMany\<close> comes back with: \<^verbatim>\<open>true\<close>,
  \<^verbatim>\<open>undefined\<close>, or a \<^verbatim>\<open>TypeError\<close> that escapes.
\<close>

datatype completion = ReturnedTrue | ReturnedUndefined | ThrewTypeError

text \<open>
  \<^verbatim>\<open>_runMigration\<close>. When \<^verbatim>\<open>migration\<close> is \<^verbatim>\<open>undefined\<close>, \<^verbatim>\<open>migration.up\<close> throws inside
  the \<^verbatim>\<open>try\<close> and \<^verbatim>\<open>migration.constructor\<close> throws again inside the \<^verbatim>\<open>catch\<close>, before any
  line is logged.
\<close>

definition action :: "bool \<Rightarrow> 'db migration \<Rightarrow> 'db \<Rightarrow> bool \<times> 'db" where
  "action toUpgrade m = (if toUpgrade then up m else down m)"

definition runMigration ::
  "'db migration option \<Rightarrow> bool \<Rightarrow> 'db \<Rightarrow> completion \<times> event list \<times> 'db" where
  "runMigration migration toUpgrade s =
     (case migration of
        None \<Rightarrow> (ThrewTypeError, [], s)
      | Some m \<Rightarrow>
          (case action toUpgrade m s of
             (True, s') \<Rightarrow> (ReturnedTrue, [Log (UnitDone (cname m) toUpgrade)], s')
           | (False, s') \<Rightarrow> (ReturnedUndefined, [Log (UnitFailed (cname m)), Log ErrorDump], s')))"

fun migrateMany ::
  "'db migration list \<Rightarrow> bool \<Rightarrow> 'db \<Rightarrow> completion \<times> event list \<times> 'db" where
  "migrateMany [] toUpgrade s = (ReturnedTrue, [], s)"
| "migrateMany (m # ms) toUpgrade s =
     (case runMigration (Some m) toUpgrade s of
        (ReturnedTrue, evs, s') \<Rightarrow>
          (case migrateMany ms toUpgrade s' of (r, evs', s'') \<Rightarrow> (r, evs @ evs', s''))
      | (r, evs, s') \<Rightarrow> (r, evs, s'))"

text \<open>
  \<^verbatim>\<open>_updateMigrationVersion\<close>: an insert adds a row, an update changes the version of
  every row of the module. The first component is \<open>False\<close> when the query throws.
\<close>

definition updateMigrationVersion ::
  "'db env \<Rightarrow> string \<Rightarrow> jsval \<Rightarrow> bool \<Rightarrow> (string \<times> jsval) list
     \<Rightarrow> bool \<times> event list \<times> (string \<times> jsval) list" where
  "updateMigrationVersion e moduleName version toInsert tbl =
     (if toInsert
      then (if write_ok e
            then (True, [Insert moduleName version], tbl @ [(moduleName, version)])
            else (False, [Insert moduleName version], tbl))
      else (if write_ok e
            then (True, [Update moduleName version],
                  map (\<lambda>(m, v). if m = moduleName then (m, version) else (m, v)) tbl)
            else (False, [Update moduleName version], tbl)))"

text \<open>How a stage of \<^verbatim>\<open>_doMigration\<close> ends: it throws, it returns early (with the
  lines it logged), or the method goes on.\<close>

datatype 'a flow = Throws migration_error | Returns "event list" | Continues 'a

text \<open>The two checks at the top of \<^verbatim>\<open>_doMigration\<close>.\<close>

fun arg_isNaN :: "version_arg \<Rightarrow> bool" where
  "arg_isNaN Latest = True"
| "arg_isNaN (Val v) = js_isNaN v"

fun arg_lt :: "version_arg \<Rightarrow> jsval \<Rightarrow> bool" where
  "arg_lt Latest b = False"
| "arg_lt (Val v) b = js_lt v b"

definition validate :: "string \<Rightarrow> version_arg \<Rightarrow> unit flow" where
  "validate moduleName version =
     (if moduleName = [] then Throws ProvideModule
      else if (version \<noteq> Latest \<and> (version \<noteq> Val Undefined \<and> arg_isNaN version))
              \<or> arg_lt version (Num 0)
      then Throws ProvideValidVersion
      else Continues ())"

text \<open>The version to go to, from the argument, the current version and the number of
  units.\<close>

definition resolve :: "bool \<Rightarrow> version_arg \<Rightarrow> jsval \<Rightarrow> nat \<Rightarrow> jsval flow" where
  "resolve toUpgrade version currentVersion latestVersion =
     (case version of
        Val Undefined \<Rightarrow>
          (if strict_eq currentVersion Null
           then (if toUpgrade then Returns [] else Continues (Num 1))
           else Continues (js_add currentVersion (Num (if toUpgrade then 1 else - 1))))
      | Latest \<Rightarrow>
          (if toUpgrade then Continues (Num (int latestVersion))
           else Throws CannotRollbackToLatest)
      | Val v \<Rightarrow> Continues v)"

text \<open>The checks between the resolution and the \<^verbatim>\<open>try\<close> block, in their order.\<close>

definition guards :: "string \<Rightarrow> bool \<Rightarrow> jsval \<Rightarrow> jsval \<Rightarrow> nat \<Rightarrow> unit flow" where
  "guards moduleName toUpgrade version currentVersion latestVersion =
     (if toUpgrade \<and> js_lt version currentVersion then Throws CannotMigrateToPrevious
      else if \<not> toUpgrade \<and> js_gt version currentVersion then Throws CannotRollbackToLater
      else if js_gt version (Num (int latestVersion))
              \<or> (toUpgrade \<and> strict_eq currentVersion (Num (int latestVersion)))
      then Returns [Log (AlreadyLatest moduleName)]
      else if \<not> toUpgrade \<and> strict_eq currentVersion (Num 0)
      then Returns [Log (NotYetMigrated moduleName)]
      else if strict_eq version currentVersion
      then Returns [Log (AlreadyGiven moduleName)]
      else Continues ())"

text \<open>The two ways of running the units inside the \<^verbatim>\<open>try\<close> block: one unit picked by
  its index, or a slice handed to \<^verbatim>\<open>_migrateMany\<close>.\<close>

definition is_single :: "jsval \<Rightarrow> jsval \<Rightarrow> bool" where
  "is_single version currentVersion =
     js_le (js_abs (js_sub version (js_or currentVersion (Num 0)))) (Num 1)"

definition run_single ::
  "'db migration list \<Rightarrow> bool \<Rightarrow> jsval \<Rightarrow> 'db \<Rightarrow> completion \<times> event list \<times> 'db" where
  "run_single migrations toUpgrade version s =
     runMigration (js_index migrations (if toUpgrade then js_sub version (Num 1) else version))
       toUpgrade s"

definition run_many ::
  "'db migration list \<Rightarrow> bool \<Rightarrow> jsval \<Rightarrow> jsval \<Rightarrow> 'db \<Rightarrow> completion \<times> event list \<times> 'db" where
  "run_many migrations toUpgrade version currentVersion s =
     migrateMany
       (if toUpgrade then js_slice migrations currentVersion version
        else rev (js_slice migrations version currentVersion))
       toUpgrade s"

text \<open>The \<^verbatim>\<open>try\<close> block of \<^verbatim>\<open>_doMigration\<close> with its \<^verbatim>\<open>catch\<close>.\<close>

definition execute ::
  "'db env \<Rightarrow> string \<Rightarrow> bool \<Rightarrow> jsval \<Rightarrow> jsval \<Rightarrow> 'db migration list \<Rightarrow> 'db world
     \<Rightarrow> event list \<times> 'db world" where
  "execute e moduleName toUpgrade version currentVersion migrations w =
     (case (if is_single version currentVersion
            then run_single migrations toUpgrade version (schema w)
            else run_many migrations toUpgrade version currentVersion (schema w)) of
        (ThrewTypeError, evs, s') \<Rightarrow> (evs @ [Log ErrorDump], w\<lparr>schema := s'\<rparr>)
      | (ReturnedUndefined, evs, s') \<Rightarrow> (evs, w\<lparr>schema := s'\<rparr>)
      | (ReturnedTrue, evs, s') \<Rightarrow>
          (case updateMigrationVersion e moduleName version (strict_eq currentVersion Null)
                  (table w) of
             (True, evs', tbl') \<Rightarrow>
               (evs @ evs' @ [Log (Finished toUpgrade moduleName version)],
                \<lparr>schema = s', table = tbl'\<rparr>)
           | (False, evs', tbl') \<Rightarrow>
               (evs @ evs' @ [Log ErrorDump], \<lparr>schema = s', table = tbl'\<rparr>)))"

definition doMigration ::
  "'db env \<Rightarrow> string \<Rightarrow> bool \<Rightarrow> version_arg \<Rightarrow> 'db world \<Rightarrow> 'db result" where
  "doMigration e moduleName toUpgrade version w =
     (let start = [Log (Starting toUpgrade moduleName)] in
      case validate moduleName version of
        Throws err \<Rightarrow> \<lparr>outcome = Thrown err, events = start, final = w\<rparr>
      | Returns evs \<Rightarrow> \<lparr>outcome = Returned, events = start @ evs, final = w\<rparr>
      | Continues _ \<Rightarrow>
     (case getMigrations e moduleName of
        (None, evs1) \<Rightarrow>
          \<lparr>outcome = Returned,
           events = start @ evs1 @ [Log (CannotGetMigrations moduleName)], final = w\<rparr>
      | (Some migrations, evs1) \<Rightarrow>
     (case getVersion e moduleName (table w) of (currentVersion, evs2) \<Rightarrow>
     (case resolve toUpgrade version currentVersion (length migrations) of
        Throws err \<Rightarrow> \<lparr>outcome = Thrown err, events = start @ evs1 @ evs2, final = w\<rparr>
      | Returns evs \<Rightarrow> \<lparr>outcome = Returned, events = start @ evs1 @ evs2 @ evs, final = w\<rparr>
      | Continues target \<Rightarrow>
     (case guards moduleName toUpgrade target currentVersion (length migrations) of
        Throws err \<Rightarrow> \<lparr>outcome = Thrown err, events = start @ evs1 @ evs2, final = w\<rparr>
      | Returns evs \<Rightarrow> \<lparr>outcome = Returned, events = start @ evs1 @ evs2 @ evs, final = w\<rparr>
      | Continues _ \<Rightarrow>
     (case execute e moduleName toUpgrade target currentVersion migrations w of
        (evs3, w') \<Rightarrow>
          \<lparr>outcome = Returned, events = start @ evs1 @ evs2 @ evs3, final = w'\<rparr>))))))"

definition migrate :: "'db env \<Rightarrow> string \<Rightarrow> version_arg \<Rightarrow> 'db world \<Rightarrow> 'db result" where
  "migrate e moduleName version w = doMigration e moduleName True version w"

definition rollback :: "'db env \<Rightarrow> string \<Rightarrow> version_arg \<Rightarrow> 'db world \<Rightarrow> 'db result" where
  "rollback e moduleName version w = doMigration e moduleName False version w"


section \<open>Notions used to state the properties\<close>

text \<open>
  The units that the \<^verbatim>\<open>try\<close> block of \<^verbatim>\<open>_doMigration\<close> hands to \<^verbatim>\<open>_runMigration\<close>, in
  order: the one unit found at the index (none when the index is outside the array), or
  the slice.
\<close>

definition selected_units :: "'db migration list \<Rightarrow> bool \<Rightarrow> jsval \<Rightarrow> jsval \<Rightarrow> 'db migration list" where
  "selected_units migrations toUpgrade version currentVersion =
     (if is_single version currentVersion
      then (case js_index migrations (if toUpgrade then js_sub version (Num 1) else version) of
              None \<Rightarrow> [] | Some m \<Rightarrow> [m])
      else if toUpgrade then js_slice migrations currentVersion version
      else rev (js_slice migrations version currentVersion))"


text \<open>Events that are queries writing to the table, and lines about a unit's action.\<close>

fun is_write :: "event \<Rightarrow> bool" where
  "is_write (Insert _ _) = True"
| "is_write (Update _ _) = True"
| "is_write (Log _) = False"

fun is_unit_line :: "event \<Rightarrow> bool" where
  "is_unit_line (Log (UnitDone _ _)) = True"
| "is_unit_line (Log (UnitFailed _)) = True"
| "is_unit_line _ = False"

text \<open>The line of a completed action, and the schema after the actions of a list of units.\<close>

abbreviation done_line :: "bool \<Rightarrow> 'db migration \<Rightarrow> event" where
  "done_line toUpgrade m \<equiv> Log (UnitDone (cname m) toUpgrade)"

abbreviation effect :: "bool \<Rightarrow> 'db migration list \<Rightarrow> 'db \<Rightarrow> 'db" where
  "effect toUpgrade ms s \<equiv> fold (\<lambda>m s. snd (action toUpgrade m s)) ms s"


text \<open>
  The \<^verbatim>\<open>version\<close> argument as the methods document it (\<^verbatim>\<open>@param {number} [version]\<close>, or
  \<^verbatim>\<open>'latest'\<close>): anything but \<^verbatim>\<open>null\<close>.
\<close>

definition declared :: "version_arg \<Rightarrow> bool" where
  "declared version = (version \<noteq> Val Null)"

text \<open>A stored version, if there is one, is a number between 0 and the number of units.\<close>

fun in_range :: "nat \<Rightarrow> jsval option \<Rightarrow> bool" where
  "in_range len None = True"
| "in_range len (Some (Num c)) = (0 \<le> c \<and> c \<le> int len)"
| "in_range len (Some _) = False"

text \<open>Invocations of the two public methods, one after the other.\<close>

datatype call = Migrate string version_arg | Rollback string version_arg

fun invoke :: "'db env \<Rightarrow> call \<Rightarrow> 'db world \<Rightarrow> 'db world" where
  "invoke e (Migrate moduleName version) w = final (migrate e moduleName version w)"
| "invoke e (Rollback moduleName version) w = final (rollback e moduleName version w)"

fun call_version :: "call \<Rightarrow> version_arg" where
  "call_version (Migrate moduleName version) = version"
| "call_version (Rollback moduleName version) = version"

subsection \<open>Modules to run the controller on\<close>

text \<open>
  The schema is the journal of the actions applied to it. The module \<^verbatim>\<open>billing\<close> has
  three units; \<^verbatim>\<open>orders\<close> has three units of which the second cannot be applied;
  \<^verbatim>\<open>ledger\<close> has two units, and the forward action of the second succeeds only on a
  schema to which the first has been applied.
\<close>

definition journal_unit :: "string \<Rightarrow> bool \<Rightarrow> (string list) migration" where
  "journal_unit nm ok =
     \<lparr>cname = nm, up = (\<lambda>s. (ok, s @ [''up '' @ nm])), down = (\<lambda>s. (ok, s @ [''down '' @ nm]))\<rparr>"

definition dependent_unit :: "string \<Rightarrow> string list \<Rightarrow> (string list) migration" where
  "dependent_unit nm needs =
     \<lparr>cname = nm, up = (\<lambda>s. (set needs \<subseteq> set s, s @ [''up '' @ nm])),
      down = (\<lambda>s. (True, s @ [''down '' @ nm]))\<rparr>"

definition billing :: "(string list) migration list" where
  "billing = [journal_unit ''A'' True, journal_unit ''B'' True, journal_unit ''C'' True]"

definition orders :: "(string list) migration list" where
  "orders = [journal_unit ''P'' True, journal_unit ''Q'' False, journal_unit ''R'' True]"

definition ledger :: "(string list) migration list" where
  "ledger = [dependent_unit ''T'' [], dependent_unit ''U'' [''up T'']]"

definition example_env :: "(string list) env" where
  "example_env =
     \<lparr>loader = (\<lambda>n. if n = ''billing'' then Some billing
                     else if n = ''orders'' then Some orders
                     else if n = ''ledger'' then Some ledger else None),
      read_ok = True, write_ok = True\<rparr>"

section \<open>Properties of the array operations and of the loop\<close>



lemma runMigration_Some:
  "runMigration (Some m) toUpgrade s =
     (if fst (action toUpgrade m s)
      then (ReturnedTrue, [done_line toUpgrade m], snd (action toUpgrade m s))
      else (ReturnedUndefined, [Log (UnitFailed (cname m)), Log ErrorDump],
            snd (action toUpgrade m s)))"
  by (cases "action toUpgrade m s") (simp add: runMigration_def)

lemma migrateMany_shape:
  "(fst (migrateMany ms toUpgrade s) = ReturnedTrue
      \<and> fst (snd (migrateMany ms toUpgrade s)) = map (done_line toUpgrade) ms
      \<and> snd (snd (migrateMany ms toUpgrade s)) = effect toUpgrade ms s
      \<and> (\<forall>pre m post. ms = pre @ m # post \<longrightarrow> fst (action toUpgrade m (effect toUpgrade pre s))))
   \<or> (\<exists>pre m post. ms = pre @ m # post
      \<and> fst (migrateMany ms toUpgrade s) = ReturnedUndefined
      \<and> fst (snd (migrateMany ms toUpgrade s)) =
          map (done_line toUpgrade) pre @ [Log (UnitFailed (cname m)), Log ErrorDump]
      \<and> \<not> fst (action toUpgrade m (effect toUpgrade pre s))
      \<and> snd (snd (migrateMany ms toUpgrade s)) = snd (action toUpgrade m (effect toUpgrade pre s)))"
proof (induction ms arbitrary: s)
  case Nil
  show ?case by simp
next
  case (Cons a ms)
  show ?case
  proof (cases "fst (action toUpgrade a s)")
    case False
    then have "\<exists>pre m post. a # ms = pre @ m # post
      \<and> fst (migrateMany (a # ms) toUpgrade s) = ReturnedUndefined
      \<and> fst (snd (migrateMany (a # ms) toUpgrade s)) =
          map (done_line toUpgrade) pre @ [Log (UnitFailed (cname m)), Log ErrorDump]
      \<and> \<not> fst (action toUpgrade m (effect toUpgrade pre s))
      \<and> snd (snd (migrateMany (a # ms) toUpgrade s)) = snd (action toUpgrade m (effect toUpgrade pre s))"
      by - (rule exI [of _ "[]"], rule exI [of _ a], rule exI [of _ ms], simp add: runMigration_Some)
    then show ?thesis by blast
  next
    case True
    let ?s = "snd (action toUpgrade a s)"
    have unfold: "migrateMany (a # ms) toUpgrade s =
        (fst (migrateMany ms toUpgrade ?s),
         done_line toUpgrade a # fst (snd (migrateMany ms toUpgrade ?s)),
         snd (snd (migrateMany ms toUpgrade ?s)))"
      using True by (simp add: runMigration_Some split: prod.splits)
    from Cons.IH [of ?s] show ?thesis
    proof (elim disjE exE conjE)
      assume ok: "fst (migrateMany ms toUpgrade ?s) = ReturnedTrue"
        "fst (snd (migrateMany ms toUpgrade ?s)) = map (done_line toUpgrade) ms"
        "snd (snd (migrateMany ms toUpgrade ?s)) = effect toUpgrade ms ?s"
        "\<forall>pre m post. ms = pre @ m # post \<longrightarrow> fst (action toUpgrade m (effect toUpgrade pre ?s))"
      have "fst (action toUpgrade m (effect toUpgrade pre s))" if "a # ms = pre @ m # post" for pre m post
      proof (cases pre)
        case Nil
        with that True show ?thesis by simp
      next
        case (Cons b pre')
        with that have "b = a" "ms = pre' @ m # post" by simp_all
        with ok(4) Cons show ?thesis by simp
      qed
      with ok unfold show ?thesis by simp
    next
      fix pre m post
      assume ko: "ms = pre @ m # post"
        "fst (migrateMany ms toUpgrade ?s) = ReturnedUndefined"
        "fst (snd (migrateMany ms toUpgrade ?s)) =
          map (done_line toUpgrade) pre @ [Log (UnitFailed (cname m)), Log ErrorDump]"
        "\<not> fst (action toUpgrade m (effect toUpgrade pre ?s))"
        "snd (snd (migrateMany ms toUpgrade ?s)) = snd (action toUpgrade m (effect toUpgrade pre ?s))"
      then have "\<exists>pre m post. a # ms = pre @ m # post
      \<and> fst (migrateMany (a # ms) toUpgrade s) = ReturnedUndefined
      \<and> fst (snd (migrateMany (a # ms) toUpgrade s)) =
          map (done_line toUpgrade) pre @ [Log (UnitFailed (cname m)), Log ErrorDump]
      \<and> \<not> fst (action toUpgrade m (effect toUpgrade pre s))
      \<and> snd (snd (migrateMany (a # ms) toUpgrade s)) = snd (action toUpgrade m (effect toUpgrade pre s))"
        using unfold by - (rule exI [of _ "a # pre"], rule exI [of _ m], rule exI [of _ post], simp)
      then show ?thesis by blast
    qed
  qed
qed

lemma updateMigrationVersion_events:
  "fst (snd (updateMigrationVersion e n t b tbl)) = [if b then Insert n t else Update n t]"
  by (simp add: updateMigrationVersion_def)

lemma execute_shape:
  fixes e n toUpgrade t cur ms w
  defines "sel \<equiv> selected_units ms toUpgrade t cur"
    and "U \<equiv> updateMigrationVersion e n t (strict_eq cur Null) (table w)"
  shows
    "(is_single t cur \<and> js_index ms (if toUpgrade then js_sub t (Num 1) else t) = None
        \<and> execute e n toUpgrade t cur ms w = ([Log ErrorDump], w))
   \<or> (\<exists>pre m post. sel = pre @ m # post
        \<and> \<not> fst (action toUpgrade m (effect toUpgrade pre (schema w)))
        \<and> execute e n toUpgrade t cur ms w =
            (map (done_line toUpgrade) pre @ [Log (UnitFailed (cname m)), Log ErrorDump],
             w\<lparr>schema := snd (action toUpgrade m (effect toUpgrade pre (schema w)))\<rparr>))
   \<or> ((\<forall>pre m post. sel = pre @ m # post
            \<longrightarrow> fst (action toUpgrade m (effect toUpgrade pre (schema w))))
        \<and> execute e n toUpgrade t cur ms w =
            (map (done_line toUpgrade) sel @ fst (snd U)
               @ [Log (if fst U then Finished toUpgrade n t else ErrorDump)],
             \<lparr>schema = effect toUpgrade sel (schema w), table = snd (snd U)\<rparr>))"
proof (cases "is_single t cur")
  case single: True
  show ?thesis
  proof (cases "js_index ms (if toUpgrade then js_sub t (Num 1) else t)")
    case None
    with single have "execute e n toUpgrade t cur ms w = ([Log ErrorDump], w)"
      by (simp add: execute_def run_single_def runMigration_def)
    with single None show ?thesis by simp
  next
    case (Some m)
    with single have sel: "sel = [m]" by (simp add: sel_def selected_units_def)
    show ?thesis
    proof (cases "fst (action toUpgrade m (schema w))")
      case True
      have "fst (action toUpgrade m' (effect toUpgrade pre (schema w)))"
        if "sel = pre @ m' # post" for pre m' post
      proof -
        from that sel have "pre = []" "m' = m" by (simp_all add: Cons_eq_append_conv)
        with True show ?thesis by simp
      qed
      moreover have "execute e n toUpgrade t cur ms w =
            (map (done_line toUpgrade) sel @ fst (snd U)
               @ [Log (if fst U then Finished toUpgrade n t else ErrorDump)],
             \<lparr>schema = effect toUpgrade sel (schema w), table = snd (snd U)\<rparr>)"
        using single Some True sel
        by (cases U)
           (auto simp add: execute_def run_single_def runMigration_Some U_def
              updateMigrationVersion_def split: prod.splits)
      ultimately show ?thesis by blast
    next
      case False
      have "execute e n toUpgrade t cur ms w =
            (map (done_line toUpgrade) [] @ [Log (UnitFailed (cname m)), Log ErrorDump],
             w\<lparr>schema := snd (action toUpgrade m (effect toUpgrade [] (schema w)))\<rparr>)"
        using single Some False by (simp add: execute_def run_single_def runMigration_Some)
      moreover have "sel = [] @ m # []" using sel by simp
      moreover have "\<not> fst (action toUpgrade m (effect toUpgrade [] (schema w)))"
        using False by simp
      ultimately show ?thesis by blast
    qed
  qed
next
  case many: False
  then have sel: "sel = (if toUpgrade then js_slice ms cur t else rev (js_slice ms t cur))"
    by (simp add: sel_def selected_units_def)
  have ex: "execute e n toUpgrade t cur ms w =
     (case migrateMany sel toUpgrade (schema w) of
        (ThrewTypeError, evs, s') \<Rightarrow> (evs @ [Log ErrorDump], w\<lparr>schema := s'\<rparr>)
      | (ReturnedUndefined, evs, s') \<Rightarrow> (evs, w\<lparr>schema := s'\<rparr>)
      | (ReturnedTrue, evs, s') \<Rightarrow>
          (case U of
             (True, evs', tbl') \<Rightarrow>
               (evs @ evs' @ [Log (Finished toUpgrade n t)], \<lparr>schema = s', table = tbl'\<rparr>)
           | (False, evs', tbl') \<Rightarrow>
               (evs @ evs' @ [Log ErrorDump], \<lparr>schema = s', table = tbl'\<rparr>)))"
    using many unfolding U_def sel by (simp add: execute_def run_many_def)
  from migrateMany_shape [of sel toUpgrade "schema w"] show ?thesis
  proof (elim disjE exE conjE)
    assume ok: "fst (migrateMany sel toUpgrade (schema w)) = ReturnedTrue"
      "fst (snd (migrateMany sel toUpgrade (schema w))) = map (done_line toUpgrade) sel"
      "snd (snd (migrateMany sel toUpgrade (schema w))) = effect toUpgrade sel (schema w)"
      "\<forall>pre m post. sel = pre @ m # post
         \<longrightarrow> fst (action toUpgrade m (effect toUpgrade pre (schema w)))"
    then have "migrateMany sel toUpgrade (schema w) =
        (ReturnedTrue, map (done_line toUpgrade) sel, effect toUpgrade sel (schema w))"
      by (cases "migrateMany sel toUpgrade (schema w)") simp
    then have "execute e n toUpgrade t cur ms w =
            (map (done_line toUpgrade) sel @ fst (snd U)
               @ [Log (if fst U then Finished toUpgrade n t else ErrorDump)],
             \<lparr>schema = effect toUpgrade sel (schema w), table = snd (snd U)\<rparr>)"
      by (cases U) (auto simp add: ex)
    with ok(4) show ?thesis by blast
  next
    fix pre m post
    assume ko: "sel = pre @ m # post"
      "fst (migrateMany sel toUpgrade (schema w)) = ReturnedUndefined"
      "fst (snd (migrateMany sel toUpgrade (schema w))) =
          map (done_line toUpgrade) pre @ [Log (UnitFailed (cname m)), Log ErrorDump]"
      "\<not> fst (action toUpgrade m (effect toUpgrade pre (schema w)))"
      "snd (snd (migrateMany sel toUpgrade (schema w))) =
          snd (action toUpgrade m (effect toUpgrade pre (schema w)))"
    from ko(2,3,5) have "migrateMany sel toUpgrade (schema w) =
        (ReturnedUndefined,
         map (done_line toUpgrade) pre @ [Log (UnitFailed (cname m)), Log ErrorDump],
         snd (action toUpgrade m (effect toUpgrade pre (schema w))))"
      by (cases "migrateMany sel toUpgrade (schema w)") simp
    then have "execute e n toUpgrade t cur ms w =
            (map (done_line toUpgrade) pre @ [Log (UnitFailed (cname m)), Log ErrorDump],
             w\<lparr>schema := snd (action toUpgrade m (effect toUpgrade pre (schema w)))\<rparr>)"
      by (simp add: ex)
    with ko(1,4) show ?thesis by blast
  qed
qed

lemma doMigration_run:
  assumes "validate n v = Continues ()" and "loader e n = Some ms"
    and "resolve toUpgrade v (fst (getVersion e n (table w))) (length ms) = Continues t"
    and "guards n toUpgrade t (fst (getVersion e n (table w))) (length ms) = Continues ()"
  shows "doMigration e n toUpgrade v w =
           \<lparr>outcome = Returned,
            events = Log (Starting toUpgrade n) # snd (getVersion e n (table w))
              @ fst (execute e n toUpgrade t (fst (getVersion e n (table w))) ms w),
            final = snd (execute e n toUpgrade t (fst (getVersion e n (table w))) ms w)\<rparr>"
proof -
  obtain cur evs2 where gv: "getVersion e n (table w) = (cur, evs2)"
    by (cases "getVersion e n (table w)")
  with assms show ?thesis
    by (cases "execute e n toUpgrade t cur ms w")
       (simp add: doMigration_def getMigrations_def)
qed

lemma getVersion_quiet:
  "ev \<in> set (snd (getVersion e n tbl)) \<Longrightarrow> \<not> is_write ev \<and> \<not> is_unit_line ev"
  by (auto simp add: getVersion_def split: if_splits)

lemma resolve_Returns: "resolve toUpgrade v cur len = Returns evs \<Longrightarrow> evs = []"
  by (auto simp add: resolve_def split: version_arg.splits jsval.splits if_splits)

lemma guards_Returns:
  "guards n toUpgrade t cur len = Returns evs \<Longrightarrow> ev \<in> set evs
     \<Longrightarrow> \<not> is_write ev \<and> \<not> is_unit_line ev"
  by (auto simp add: guards_def split: if_splits)

lemma validate_cases:
  "validate n v = Throws ProvideModule \<or> validate n v = Throws ProvideValidVersion
     \<or> validate n v = Continues ()"
  by (simp add: validate_def)

lemma doMigration_early:
  assumes "\<not> (\<exists>ms t. validate n v = Continues () \<and> loader e n = Some ms
      \<and> resolve toUpgrade v (fst (getVersion e n (table w))) (length ms) = Continues t
      \<and> guards n toUpgrade t (fst (getVersion e n (table w))) (length ms) = Continues ())"
  shows "final (doMigration e n toUpgrade v w) = w
     \<and> (\<forall>ev\<in>set (events (doMigration e n toUpgrade v w)). \<not> is_write ev \<and> \<not> is_unit_line ev)"
proof (cases "validate n v = Continues ()")
  case False
  with validate_cases [of n v] show ?thesis
    by (auto simp add: doMigration_def)
next
  case valid: True
  show ?thesis
  proof (cases "loader e n")
    case None
    with valid show ?thesis by (simp add: doMigration_def getMigrations_def)
  next
    case (Some ms)
    obtain cur evs2 where gv: "getVersion e n (table w) = (cur, evs2)"
      by (cases "getVersion e n (table w)")
    have q2: "\<forall>ev\<in>set evs2. \<not> is_write ev \<and> \<not> is_unit_line ev"
      using getVersion_quiet [of _ e n "table w"] gv by simp
    show ?thesis
    proof (cases "resolve toUpgrade v cur (length ms)")
      case (Throws err)
      with valid Some gv q2 show ?thesis by (simp add: doMigration_def getMigrations_def)
    next
      case (Returns evs)
      with valid Some gv q2 resolve_Returns [OF Returns] show ?thesis
        by (simp add: doMigration_def getMigrations_def)
    next
      case (Continues t)
      show ?thesis
      proof (cases "guards n toUpgrade t cur (length ms)")
        case (Throws err)
        with valid Some gv q2 Continues show ?thesis
          by (simp add: doMigration_def getMigrations_def)
      next
        case (Returns evs)
        with guards_Returns [OF Returns]
        have "\<forall>ev\<in>set evs. \<not> is_write ev \<and> \<not> is_unit_line ev" by blast
        with valid Some gv q2 Continues Returns show ?thesis
          by (auto simp add: doMigration_def getMigrations_def)
      next
        case c: (Continues u)
        with assms valid Some gv Continues have False by simp
        then show ?thesis ..
      qed
    qed
  qed
qed


lemma map_of_update_rows:
  "map_of (map (\<lambda>(m, v). if m = n then (m, x) else (m, v)) tbl) k =
     (if k = n then map_option (\<lambda>_. x) (map_of tbl n) else map_of tbl k)"
  by (induction tbl) auto



lemma doMigration_stages:
  assumes "ev \<in> set (events (doMigration e n toUpgrade v w))"
    and "is_write ev \<or> is_unit_line ev"
  obtains ms t where "validate n v = Continues ()" and "loader e n = Some ms"
    and "resolve toUpgrade v (fst (getVersion e n (table w))) (length ms) = Continues t"
    and "guards n toUpgrade t (fst (getVersion e n (table w))) (length ms) = Continues ()"
    and "ev \<in> set (fst (execute e n toUpgrade t (fst (getVersion e n (table w))) ms w))"
proof -
  have "\<exists>ms t. validate n v = Continues () \<and> loader e n = Some ms
      \<and> resolve toUpgrade v (fst (getVersion e n (table w))) (length ms) = Continues t
      \<and> guards n toUpgrade t (fst (getVersion e n (table w))) (length ms) = Continues ()"
    using doMigration_early [of n v e toUpgrade w] assms by blast
  then obtain ms t where st: "validate n v = Continues ()" "loader e n = Some ms"
      "resolve toUpgrade v (fst (getVersion e n (table w))) (length ms) = Continues t"
      "guards n toUpgrade t (fst (getVersion e n (table w))) (length ms) = Continues ()"
    by blast
  from assms(1) have "ev = Log (Starting toUpgrade n) \<or> ev \<in> set (snd (getVersion e n (table w)))
      \<or> ev \<in> set (fst (execute e n toUpgrade t (fst (getVersion e n (table w))) ms w))"
    by (simp add: doMigration_run [OF st])
  with assms(2) getVersion_quiet [of ev e n "table w"]
  have "ev \<in> set (fst (execute e n toUpgrade t (fst (getVersion e n (table w))) ms w))"
    by auto
  with st that show thesis by blast
qed


lemma target_in_range:
  assumes "validate n v = Continues ()" and "declared v"
    and "cur = Null \<or> (\<exists>c. cur = Num c \<and> 0 \<le> c \<and> c \<le> int len)"
    and "resolve toUpgrade v cur len = Continues t"
    and "guards n toUpgrade t cur len = Continues ()"
  shows "\<exists>k. t = Num k \<and> 0 \<le> k \<and> k \<le> int len"
  using assms
  by (auto simp add: validate_def declared_def resolve_def guards_def js_lt_def js_gt_def
      js_add_def js_isNaN_def split: if_splits version_arg.splits jsval.splits)

lemma current_of_row:
  assumes "read_ok e" and "in_range len (map_of tbl n)"
  shows "(fst (getVersion e n tbl) = Null \<and> map_of tbl n = None)
       \<or> (\<exists>c. fst (getVersion e n tbl) = Num c \<and> map_of tbl n = Some (Num c)
             \<and> 0 \<le> c \<and> c \<le> int len)"
proof (cases "map_of tbl n")
  case None
  with assms show ?thesis by (simp add: getVersion_def)
next
  case (Some x)
  with assms show ?thesis by (cases x) (simp_all add: getVersion_def)
qed

lemma updateMigrationVersion_other:
  "k \<noteq> n \<Longrightarrow> map_of (snd (snd (updateMigrationVersion e n t b tbl))) k = map_of tbl k"
  by (simp add: updateMigrationVersion_def map_of_update_rows map_add_def split: option.splits)

lemma updateMigrationVersion_same:
  assumes "b = (map_of tbl n = None)"
  shows "map_of (snd (snd (updateMigrationVersion e n t b tbl))) n = map_of tbl n
       \<or> map_of (snd (snd (updateMigrationVersion e n t b tbl))) n = Some t"
  using assms by (auto simp add: updateMigrationVersion_def map_of_update_rows map_add_def)

lemma execute_table:
  "table (snd (execute e n toUpgrade t cur ms w)) = table w
   \<or> table (snd (execute e n toUpgrade t cur ms w))
       = snd (snd (updateMigrationVersion e n t (strict_eq cur Null) (table w)))"
  using execute_shape [of t cur ms toUpgrade e n w] by auto

lemma doMigration_table:
  "table (final (doMigration e n toUpgrade v w)) = table w
   \<or> (\<exists>ms t. validate n v = Continues () \<and> loader e n = Some ms
        \<and> resolve toUpgrade v (fst (getVersion e n (table w))) (length ms) = Continues t
        \<and> guards n toUpgrade t (fst (getVersion e n (table w))) (length ms) = Continues ()
        \<and> table (final (doMigration e n toUpgrade v w))
            = snd (snd (updateMigrationVersion e n t
                (strict_eq (fst (getVersion e n (table w))) Null) (table w))))"
proof (cases "\<exists>ms t. validate n v = Continues () \<and> loader e n = Some ms
      \<and> resolve toUpgrade v (fst (getVersion e n (table w))) (length ms) = Continues t
      \<and> guards n toUpgrade t (fst (getVersion e n (table w))) (length ms) = Continues ()")
  case False
  with doMigration_early [of n v e toUpgrade w] show ?thesis by simp
next
  case True
  then obtain ms t where st: "validate n v = Continues ()" "loader e n = Some ms"
      "resolve toUpgrade v (fst (getVersion e n (table w))) (length ms) = Continues t"
      "guards n toUpgrade t (fst (getVersion e n (table w))) (length ms) = Continues ()"
    by blast
  from execute_table [of e n toUpgrade t "fst (getVersion e n (table w))" ms w] st
  show ?thesis by (auto simp add: doMigration_run [OF st])
qed

lemma doMigration_in_range:
  assumes io: "read_ok e" and loaded: "loader e n = Some ms" and decl: "declared v"
    and inv: "in_range (length ms) (map_of (table w) n)"
  shows "in_range (length ms) (map_of (table (final (doMigration e k toUpgrade v w))) n)"
proof -
  from doMigration_table [of e k toUpgrade v w] show ?thesis
  proof (elim disjE exE conjE)
    assume "table (final (doMigration e k toUpgrade v w)) = table w"
    with inv show ?thesis by simp
  next
    fix ms' t
    let ?cur = "fst (getVersion e k (table w))"
    assume st: "validate k v = Continues ()" "loader e k = Some ms'"
      "resolve toUpgrade v ?cur (length ms') = Continues t"
      "guards k toUpgrade t ?cur (length ms') = Continues ()"
      and tbl: "table (final (doMigration e k toUpgrade v w))
            = snd (snd (updateMigrationVersion e k t (strict_eq ?cur Null) (table w)))"
    show ?thesis
    proof (cases "k = n")
      case False
      then have "map_of (table (final (doMigration e k toUpgrade v w))) n = map_of (table w) n"
        by (simp add: tbl updateMigrationVersion_other)
      with inv show ?thesis by simp
    next
      case True
      with st loaded have ms': "ms' = ms" by simp
      from current_of_row [OF io inv] True
      have shape: "(?cur = Null \<and> map_of (table w) k = None)
          \<or> (\<exists>c. ?cur = Num c \<and> map_of (table w) k = Some (Num c) \<and> 0 \<le> c \<and> c \<le> int (length ms))"
        by simp
      then have "?cur = Null \<or> (\<exists>c. ?cur = Num c \<and> 0 \<le> c \<and> c \<le> int (length ms))"
        by blast
      from target_in_range [OF st(1) decl this] st(3,4) ms'
      obtain j where j: "t = Num j" "0 \<le> j" "j \<le> int (length ms)" by blast
      from shape have "strict_eq ?cur Null = (map_of (table w) k = None)" by auto
      from updateMigrationVersion_same [OF this, of e t]
      have "map_of (table (final (doMigration e k toUpgrade v w))) k = map_of (table w) k
          \<or> map_of (table (final (doMigration e k toUpgrade v w))) k = Some t"
        by (simp add: tbl)
      with inv j True show ?thesis by auto
    qed
  qed
qed

lemma doMigration_outcome:
  "outcome (doMigration e n toUpgrade v w) =
     (case validate n v of
        Throws err \<Rightarrow> Thrown err
      | Returns evs \<Rightarrow> Returned
      | Continues u \<Rightarrow>
          (case loader e n of
             None \<Rightarrow> Returned
           | Some ms \<Rightarrow>
               (case resolve toUpgrade v (fst (getVersion e n (table w))) (length ms) of
                  Throws err \<Rightarrow> Thrown err
                | Returns evs \<Rightarrow> Returned
                | Continues t \<Rightarrow>
                    (case guards n toUpgrade t (fst (getVersion e n (table w))) (length ms) of
                       Throws err \<Rightarrow> Thrown err
                     | Returns evs \<Rightarrow> Returned
                     | Continues u \<Rightarrow> Returned))))"
proof -
  obtain cur evs2 where gv: "getVersion e n (table w) = (cur, evs2)"
    by (cases "getVersion e n (table w)")
  show ?thesis
    by (simp add: doMigration_def getMigrations_def gv
        split: flow.splits option.splits prod.splits)
qed

lemma migrateMany_first_failure:
  assumes "\<forall>p x q. pre = p @ x # q \<longrightarrow> fst (action toUpgrade x (effect toUpgrade p s))"
    and "\<not> fst (action toUpgrade m (effect toUpgrade pre s))"
  shows "migrateMany (pre @ m # post) toUpgrade s =
           (ReturnedUndefined,
            map (done_line toUpgrade) pre @ [Log (UnitFailed (cname m)), Log ErrorDump],
            snd (action toUpgrade m (effect toUpgrade pre s)))"
  using assms
proof (induction pre arbitrary: s)
  case Nil
  then show ?case by (simp add: runMigration_Some)
next
  case (Cons a pre)
  from Cons.prems(1) [rule_format, of "[]" a pre] have a: "fst (action toUpgrade a s)" by simp
  have "\<forall>p x q. pre = p @ x # q
      \<longrightarrow> fst (action toUpgrade x (effect toUpgrade p (snd (action toUpgrade a s))))"
  proof (intro allI impI)
    fix p x q assume "pre = p @ x # q"
    then have "a # pre = (a # p) @ x # q" by simp
    from Cons.prems(1) [rule_format, OF this]
    show "fst (action toUpgrade x (effect toUpgrade p (snd (action toUpgrade a s))))" by simp
  qed
  moreover from Cons.prems(2)
  have "\<not> fst (action toUpgrade m (effect toUpgrade pre (snd (action toUpgrade a s))))" by simp
  ultimately have "migrateMany (pre @ m # post) toUpgrade (snd (action toUpgrade a s)) =
           (ReturnedUndefined,
            map (done_line toUpgrade) pre @ [Log (UnitFailed (cname m)), Log ErrorDump],
            snd (action toUpgrade m (effect toUpgrade pre (snd (action toUpgrade a s)))))"
    by (rule Cons.IH)
  with a show ?case by (simp add: runMigration_Some)
qed

lemma selected_single:
  assumes "is_single t cur" and "selected_units ms toUpgrade t cur = pre @ m # post"
  shows "pre = [] \<and> post = []
       \<and> js_index ms (if toUpgrade then js_sub t (Num 1) else t) = Some m"
  using assms
  by (cases "js_index ms (if toUpgrade then js_sub t (Num 1) else t)")
     (auto simp add: selected_units_def Cons_eq_append_conv)

lemma execute_failure:
  assumes sel: "selected_units ms toUpgrade t cur = pre @ m # post"
    and before: "\<forall>p x q. pre = p @ x # q
        \<longrightarrow> fst (action toUpgrade x (effect toUpgrade p (schema w)))"
    and fails: "\<not> fst (action toUpgrade m (effect toUpgrade pre (schema w)))"
  shows "execute e n toUpgrade t cur ms w =
           (map (done_line toUpgrade) pre @ [Log (UnitFailed (cname m)), Log ErrorDump],
            w\<lparr>schema := snd (action toUpgrade m (effect toUpgrade pre (schema w)))\<rparr>)"
proof (cases "is_single t cur")
  case True
  from selected_single [OF True sel] fails True show ?thesis
    by (simp add: execute_def run_single_def runMigration_Some)
next
  case False
  with sel have "(if toUpgrade then js_slice ms cur t else rev (js_slice ms t cur))
      = pre @ m # post"
    by (simp add: selected_units_def)
  with False migrateMany_first_failure [OF before fails, of post] show ?thesis
    by (simp add: execute_def run_many_def)
qed

lemma doMigration_prefix:
  assumes "validate n v = Continues ()" and "loader e n = Some ms"
  shows "\<exists>rest. events (doMigration e n toUpgrade v w)
           = Log (Starting toUpgrade n) # snd (getVersion e n (table w)) @ rest"
proof -
  obtain cur evs2 where gv: "getVersion e n (table w) = (cur, evs2)"
    by (cases "getVersion e n (table w)")
  with assms show ?thesis
    by (auto simp add: doMigration_def getMigrations_def Let_def
        split: flow.splits prod.splits)
qed

lemma updateMigrationVersion_fails:
  "\<not> write_ok e \<Longrightarrow> updateMigrationVersion e n t b tbl
     = (False, [if b then Insert n t else Update n t], tbl)"
  by (simp add: updateMigrationVersion_def)

lemma execute_write_fails:
  assumes "\<not> write_ok e" and "ev \<in> set (fst (execute e n toUpgrade t cur ms w))"
    and "is_write ev"
  shows "last (fst (execute e n toUpgrade t cur ms w)) = Log ErrorDump
       \<and> table (snd (execute e n toUpgrade t cur ms w)) = table w"
  using execute_shape [of t cur ms toUpgrade e n w] assms
  by (auto simp add: updateMigrationVersion_fails)

lemma in_range_preserved:
  assumes io: "read_ok e"
    and loaded: "loader e moduleName = Some ms"
    and decl: "\<forall>c\<in>set calls. declared (call_version c)"
    and start: "in_range (length ms) (map_of (table w) moduleName)"
  shows "in_range (length ms) (map_of (table (fold (invoke e) calls w)) moduleName)"
  using decl start
proof (induction calls arbitrary: w)
  case Nil
  then show ?case by simp
next
  case (Cons c calls)
  have "in_range (length ms) (map_of (table (invoke e c w)) moduleName)"
  proof (cases c)
    case (Migrate k v)
    with Cons.prems have "declared v" by simp
    from doMigration_in_range [OF io loaded this Cons.prems(2)] Migrate show ?thesis
      by (simp add: migrate_def)
  next
    case (Rollback k v)
    with Cons.prems have "declared v" by simp
    from doMigration_in_range [OF io loaded this Cons.prems(2)] Rollback show ?thesis
      by (simp add: rollback_def)
  qed
  with Cons.IH [of "invoke e c w"] Cons.prems(1) show ?case by simp
qed

section \<open>Running a range of units and persisting the target\<close>



section \<open>The first migration of a module\<close>

text \<open>
  Claim C2. For a module without a row in the table, \<^verbatim>\<open>migrate\<close> without a version is
  meant to run the forward action of unit 1 and to insert version 1: the comments in
  \<^verbatim>\<open>_doMigration\<close> say that a rollback executes nothing there and that anything else
  sets the version to 1. The test written under the first comment is
  \<^verbatim>\<open>if(toUpgrade) return;\<close>, so it is \<^verbatim>\<open>migrate\<close> that returns at once: on the module
  \<^verbatim>\<open>billing\<close>, with three units and an empty table, no action runs and nothing is
  inserted.
\<close>

theorem first_migrate_runs_nothing:
  "migrate example_env ''billing'' (Val Undefined) \<lparr>schema = [], table = []\<rparr> =
     \<lparr>outcome = Returned, events = [Log (Starting True ''billing'')],
      final = \<lparr>schema = [], table = []\<rparr>\<rparr>"
  by (simp add: migrate_def doMigration_def validate_def getMigrations_def getVersion_def
      resolve_def example_env_def js_isNaN_def js_lt_def)

text \<open>
  Claim C3. For a module without a row in the table, \<^verbatim>\<open>rollback\<close> without a version is
  meant to return at once without an error. The same test lets the rollback through with
  version 1, and the check of the direction then throws "Cannot rollback to a later
  version": no action runs and nothing is written, but the caller gets an error.
\<close>

theorem rollback_without_record_throws:
  "rollback example_env ''billing'' (Val Undefined) \<lparr>schema = [], table = []\<rparr> =
     \<lparr>outcome = Thrown CannotRollbackToLater, events = [Log (Starting False ''billing'')],
      final = \<lparr>schema = [], table = []\<rparr>\<rparr>"
  by (simp add: rollback_def doMigration_def validate_def getMigrations_def getVersion_def
      resolve_def guards_def example_env_def js_isNaN_def js_lt_def js_gt_def)

section \<open>A failing action\<close>

text \<open>
  Claim C4. Take an invocation that reaches the \<^verbatim>\<open>try\<close> block: the request is valid, the
  units are loaded, and the target is resolved and let through by the guards. Let the
  selected units be \<open>pre @ m # post\<close>, let the action of each unit of \<open>pre\<close> succeed on the
  schema it meets, and let the action of \<open>m\<close> fail on the schema left by \<open>pre\<close>. Then the
  run is over right after the two lines that report the failure of \<open>m\<close>: the units of
  \<open>post\<close> do not run, no query writes to the table and the table is as before, the method
  returns with the failure in the log (it returns \<^verbatim>\<open>undefined\<close> whatever happened, so the
  log is the report), and the schema is the one the failed action left after the actions
  of \<open>pre\<close>, none of which is undone.
\<close>

theorem failing_action_halts_run:
  assumes valid: "validate moduleName version = Continues ()"
    and loaded: "loader e moduleName = Some ms"
    and target: "resolve toUpgrade version (fst (getVersion e moduleName (table w))) (length ms)
                   = Continues t"
    and admitted: "guards moduleName toUpgrade t (fst (getVersion e moduleName (table w)))
                     (length ms) = Continues ()"
    and selected: "selected_units ms toUpgrade t (fst (getVersion e moduleName (table w)))
                     = pre @ m # post"
    and before: "\<forall>p x q. pre = p @ x # q
        \<longrightarrow> fst (action toUpgrade x (fold (\<lambda>m s. snd (action toUpgrade m s)) p (schema w)))"
    and fails: "\<not> fst (action toUpgrade m
                       (fold (\<lambda>m s. snd (action toUpgrade m s)) pre (schema w)))"
  shows "doMigration e moduleName toUpgrade version w =
           \<lparr>outcome = Returned,
            events = Log (Starting toUpgrade moduleName)
              # snd (getVersion e moduleName (table w))
              @ map (\<lambda>m. Log (UnitDone (cname m) toUpgrade)) pre
              @ [Log (UnitFailed (cname m)), Log ErrorDump],
            final = w\<lparr>schema :=
              snd (action toUpgrade m
                     (fold (\<lambda>m s. snd (action toUpgrade m s)) pre (schema w)))\<rparr>\<rparr>"
  by (simp add: doMigration_run [OF valid loaded target admitted]
      execute_failure [OF selected before fails])

theorem failing_action_halts_run_witness:
  "doMigration example_env ''orders'' True Latest \<lparr>schema = [], table = []\<rparr> =
       \<lparr>outcome = Returned,
        events = [Log (Starting True ''orders''), Log (UnitDone ''P'' True),
                  Log (UnitFailed ''Q''), Log ErrorDump],
        final = \<lparr>schema = [''up P'', ''up Q''], table = []\<rparr>\<rparr>"
proof -
  have before: "\<forall>p x q. [journal_unit ''P'' True] = p @ x # q
      \<longrightarrow> fst (action True x (fold (\<lambda>m s. snd (action True m s)) p (schema \<lparr>schema = [], table = []\<rparr>)))"
    by (auto simp add: Cons_eq_append_conv action_def journal_unit_def)
  have sel: "selected_units orders True (Num 3)
      (fst (getVersion example_env ''orders'' (table \<lparr>schema = [], table = []\<rparr>)))
      = [journal_unit ''P'' True] @ journal_unit ''Q'' False # [journal_unit ''R'' True]"
    by (simp add: selected_units_def is_single_def js_le_def js_abs_def js_sub_def js_or_def
        getVersion_def example_env_def js_slice_def to_integer_def rel_index_def orders_def)
  from failing_action_halts_run [of "''orders''" Latest example_env orders True
      "\<lparr>schema = [], table = []\<rparr>" "Num 3" "[journal_unit ''P'' True]"
      "journal_unit ''Q'' False" "[journal_unit ''R'' True]", OF _ _ _ _ sel before]
  show ?thesis
    by (simp add: validate_def example_env_def orders_def resolve_def guards_def getVersion_def
        js_lt_def js_gt_def journal_unit_def action_def)
qed

section \<open>The single-unit branch\<close>




section \<open>Migrating to a previous version\<close>

text \<open>
  Claim C6. For a module whose units are loaded and whose stored current version is \<open>c\<close>,
  \<^verbatim>\<open>migrate\<close> with an explicit version \<open>v\<close>, \<open>0 \<le> v < c\<close>, throws "Cannot migrate to a
  previous version. Please rollback instead." after its first line: no action runs and
  the schema and the table are unchanged.
\<close>

theorem migrate_to_previous_version_fails:
  assumes "moduleName \<noteq> []"
    and "loader e moduleName = Some ms"
    and "read_ok e"
    and "map_of (table w) moduleName = Some (Num c)"
    and "0 \<le> v" and "v < c"
  shows "migrate e moduleName (Val (Num v)) w =
           \<lparr>outcome = Thrown CannotMigrateToPrevious,
            events = [Log (Starting True moduleName)], final = w\<rparr>"
  using assms
  by (simp add: migrate_def doMigration_def validate_def getMigrations_def getVersion_def
      resolve_def guards_def js_lt_def js_isNaN_def)

theorem migrate_to_previous_version_fails_witness:
  "migrate example_env ''billing'' (Val (Num 1)) \<lparr>schema = [], table = [(''billing'', Num 3)]\<rparr> =
     \<lparr>outcome = Thrown CannotMigrateToPrevious,
      events = [Log (Starting True ''billing'')],
      final = \<lparr>schema = [], table = [(''billing'', Num 3)]\<rparr>\<rparr>"
  using migrate_to_previous_version_fails [of "''billing''" example_env billing
      "\<lparr>schema = [], table = [(''billing'', Num 3)]\<rparr>" 3 1]
  by (simp add: example_env_def)

section \<open>The range of the stored version\<close>

text \<open>
  Claim C7. The stored version of a module is meant to stay between 0 and the number of
  its units, and the first check of \<^verbatim>\<open>_doMigration\<close> is there to refuse a version that
  is not valid. It lets \<^verbatim>\<open>null\<close> through: \<^verbatim>\<open>isNaN(null)\<close> is false and \<^verbatim>\<open>null < 0\<close> is
  false. After a migration of \<^verbatim>\<open>billing\<close> to version 2, a rollback to \<^verbatim>\<open>null\<close> passes
  every check, rolls back units 2 and 1 and updates the version to \<^verbatim>\<open>null\<close>, which is not
  a number between 0 and 3. Reads and writes succeed throughout. For version arguments
  that are numbers, \<^verbatim>\<open>'latest'\<close> or omitted, the range is kept (\<open>in_range_preserved\<close>).
\<close>

theorem null_version_is_written:
  "fold (invoke example_env) [Migrate ''billing'' (Val (Num 2)), Rollback ''billing'' (Val Null)]
       \<lparr>schema = [], table = []\<rparr>
     = \<lparr>schema = [''up A'', ''up B'', ''down B'', ''down A''], table = [(''billing'', Null)]\<rparr>
   \<and> rollback example_env ''billing'' (Val Null) \<lparr>schema = [], table = [(''billing'', Num 2)]\<rparr>
     = \<lparr>outcome = Returned,
        events = [Log (Starting False ''billing''), Log (UnitDone ''B'' False),
                  Log (UnitDone ''A'' False), Update ''billing'' Null,
                  Log (Finished False ''billing'' Null)],
        final = \<lparr>schema = [''down B'', ''down A''], table = [(''billing'', Null)]\<rparr>\<rparr>
   \<and> \<not> in_range (length billing) (map_of [(''billing'', Null)] ''billing'')"
  by (simp add: rollback_def migrate_def doMigration_def validate_def getMigrations_def
      getVersion_def resolve_def guards_def execute_def is_single_def run_many_def js_slice_def
      to_integer_def rel_index_def updateMigrationVersion_def runMigration_def action_def
      example_env_def billing_def journal_unit_def js_isNaN_def js_lt_def js_gt_def js_le_def
      js_add_def js_sub_def js_abs_def js_or_def)

section \<open>A failed read of the current version\<close>

text \<open>
  Claim C8. When the read of the current version fails, \<^verbatim>\<open>getVersion\<close> returns
  \<^verbatim>\<open>undefined\<close> and the invocation is meant to stop, as it does when \<^verbatim>\<open>_getMigrations\<close>
  fails. \<^verbatim>\<open>_doMigration\<close> does not test the value: on \<^verbatim>\<open>billing\<close>, a rollback without a
  version computes the version \<^verbatim>\<open>NaN\<close>, passes every check, runs the backward action of
  all three units and updates the version to \<^verbatim>\<open>NaN\<close>; a migration to version 2, with
  version 2 stored, runs the forward action of units 1 and 2 again.
\<close>

theorem failed_read_still_runs_units:
  "rollback (example_env\<lparr>read_ok := False\<rparr>) ''billing'' (Val Undefined)
       \<lparr>schema = [], table = [(''billing'', Num 2)]\<rparr> =
     \<lparr>outcome = Returned,
      events = [Log (Starting False ''billing''), Log (CannotGetVersion ''billing''),
                Log ErrorDump, Log (UnitDone ''C'' False), Log (UnitDone ''B'' False),
                Log (UnitDone ''A'' False), Update ''billing'' NaN,
                Log (Finished False ''billing'' NaN)],
      final = \<lparr>schema = [''down C'', ''down B'', ''down A''], table = [(''billing'', NaN)]\<rparr>\<rparr>
   \<and> migrate (example_env\<lparr>read_ok := False\<rparr>) ''billing'' (Val (Num 2))
       \<lparr>schema = [], table = [(''billing'', Num 2)]\<rparr> =
     \<lparr>outcome = Returned,
      events = [Log (Starting True ''billing''), Log (CannotGetVersion ''billing''),
                Log ErrorDump, Log (UnitDone ''A'' True), Log (UnitDone ''B'' True),
                Update ''billing'' (Num 2), Log (Finished True ''billing'' (Num 2))],
      final = \<lparr>schema = [''up A'', ''up B''], table = [(''billing'', Num 2)]\<rparr>\<rparr>"
  by (simp add: rollback_def migrate_def doMigration_def validate_def getMigrations_def getVersion_def
      resolve_def guards_def execute_def is_single_def run_many_def js_slice_def
      to_integer_def rel_index_def updateMigrationVersion_def runMigration_def action_def
      example_env_def billing_def journal_unit_def js_isNaN_def js_lt_def js_gt_def js_le_def
      js_add_def js_sub_def js_abs_def js_or_def)

section \<open>Errors raised to the caller\<close>

text \<open>
  Claim C9 says that \<^verbatim>\<open>migrate\<close> and \<^verbatim>\<open>rollback\<close> never raise an error to the caller.
  A missing module name, a negative version, a version below the current one and a
  rollback to \<^verbatim>\<open>'latest'\<close> each end in a thrown \<^verbatim>\<open>MigrationError\<close>.
\<close>

theorem validation_failures_are_thrown:
  "outcome (migrate example_env [] (Val Undefined) \<lparr>schema = [], table = []\<rparr>)
     = Thrown ProvideModule
   \<and> outcome (migrate example_env ''billing'' (Val (Num (- 1))) \<lparr>schema = [], table = []\<rparr>)
     = Thrown ProvideValidVersion
   \<and> outcome (migrate example_env ''billing'' (Val (Num 1))
        \<lparr>schema = [], table = [(''billing'', Num 3)]\<rparr>)
     = Thrown CannotMigrateToPrevious
   \<and> outcome (rollback example_env ''billing'' Latest
        \<lparr>schema = [], table = [(''billing'', Num 3)]\<rparr>)
     = Thrown CannotRollbackToLatest"
  by (simp add: migrate_def rollback_def doMigration_def validate_def getMigrations_def
      getVersion_def resolve_def guards_def example_env_def js_isNaN_def js_lt_def)

text \<open>
  Claim C9, amended. An invocation throws exactly when the module name is missing, the
  version argument is invalid, or, once the units of the module have been loaded, the
  request is a rollback to \<^verbatim>\<open>'latest'\<close> or the target is on the wrong side of the current
  version. When it throws, the schema and the table are unchanged, no action has run and
  no query has written to the table. No other failure is thrown; each is caught and
  logged:
  \<^item> when the units cannot be loaded, the method logs "Cannot get the migrations" (and
    the error) and returns, leaving the schema and the table as they were;
  \<^item> when the version cannot be read, the log continues with "Cannot get the migration
    version" and the error, and the read by itself throws nothing (only a rollback to
    \<^verbatim>\<open>'latest'\<close> still throws);
  \<^item> when the action of a selected unit fails, the method logs "Failed to run ..." and
    the error and returns;
  \<^item> when the single-unit branch finds no unit at its index, the method logs the error
    and returns, leaving the schema and the table as they were;
  \<^item> when the query that writes the version fails, the method logs the error as its last
    line and returns, and the table is as before.
\<close>

theorem errors_raised_or_captured:
  fixes e :: "'db env" and w :: "'db world" and moduleName :: string
    and toUpgrade :: bool and version :: version_arg
  defines "r \<equiv> doMigration e moduleName toUpgrade version w"
    and "cur \<equiv> fst (getVersion e moduleName (table w))"
  shows
   "((\<exists>err. outcome r = Thrown err) \<longleftrightarrow>
        moduleName = []
      \<or> (version \<noteq> Latest \<and> version \<noteq> Val Undefined \<and> arg_isNaN version)
      \<or> arg_lt version (Num 0)
      \<or> (\<exists>ms. loader e moduleName = Some ms
            \<and> ((\<not> toUpgrade \<and> version = Latest)
               \<or> (\<exists>t. resolve toUpgrade version cur (length ms) = Continues t
                    \<and> (if toUpgrade then js_lt t cur else js_gt t cur)))))
    \<and> (outcome r \<noteq> Returned \<longrightarrow>
          final r = w \<and> (\<forall>ev\<in>set (events r). \<not> is_write ev \<and> \<not> is_unit_line ev))
    \<and> (validate moduleName version = Continues () \<and> loader e moduleName = None \<longrightarrow>
          r = \<lparr>outcome = Returned,
               events = [Log (Starting toUpgrade moduleName), Log (CannotGetMigrations moduleName),
                         Log ErrorDump, Log (CannotGetMigrations moduleName)],
               final = w\<rparr>)
    \<and> (validate moduleName version = Continues () \<and> loader e moduleName \<noteq> None
          \<and> \<not> read_ok e \<longrightarrow>
          take 3 (events r) = [Log (Starting toUpgrade moduleName),
                               Log (CannotGetVersion moduleName), Log ErrorDump]
        \<and> (outcome r = Returned \<or> outcome r = Thrown CannotRollbackToLatest))
    \<and> (\<forall>ms t pre m post.
          validate moduleName version = Continues () \<and> loader e moduleName = Some ms
          \<and> resolve toUpgrade version cur (length ms) = Continues t
          \<and> guards moduleName toUpgrade t cur (length ms) = Continues ()
          \<and> selected_units ms toUpgrade t cur = pre @ m # post
          \<and> (\<forall>p x q. pre = p @ x # q \<longrightarrow>
                fst (action toUpgrade x (fold (\<lambda>m s. snd (action toUpgrade m s)) p (schema w))))
          \<and> \<not> fst (action toUpgrade m (fold (\<lambda>m s. snd (action toUpgrade m s)) pre (schema w)))
          \<longrightarrow> outcome r = Returned
            \<and> events r = Log (Starting toUpgrade moduleName)
                # snd (getVersion e moduleName (table w))
                @ map (\<lambda>m. Log (UnitDone (cname m) toUpgrade)) pre
                @ [Log (UnitFailed (cname m)), Log ErrorDump])
    \<and> (\<forall>ms t.
          validate moduleName version = Continues () \<and> loader e moduleName = Some ms
          \<and> resolve toUpgrade version cur (length ms) = Continues t
          \<and> guards moduleName toUpgrade t cur (length ms) = Continues ()
          \<and> is_single t cur
          \<and> js_index ms (if toUpgrade then js_sub t (Num 1) else t) = None
          \<longrightarrow> r = \<lparr>outcome = Returned,
                   events = Log (Starting toUpgrade moduleName)
                     # snd (getVersion e moduleName (table w)) @ [Log ErrorDump],
                   final = w\<rparr>)
    \<and> (\<not> write_ok e \<and> (\<exists>ev\<in>set (events r). is_write ev) \<longrightarrow>
          outcome r = Returned \<and> last (events r) = Log ErrorDump \<and> table (final r) = table w)"
proof -
  have out: "outcome r =
     (case validate moduleName version of
        Throws err \<Rightarrow> Thrown err
      | Returns evs \<Rightarrow> Returned
      | Continues u \<Rightarrow>
          (case loader e moduleName of
             None \<Rightarrow> Returned
           | Some ms \<Rightarrow>
               (case resolve toUpgrade version cur (length ms) of
                  Throws err \<Rightarrow> Thrown err
                | Returns evs \<Rightarrow> Returned
                | Continues t \<Rightarrow>
                    (case guards moduleName toUpgrade t cur (length ms) of
                       Throws err \<Rightarrow> Thrown err
                     | Returns evs \<Rightarrow> Returned
                     | Continues u \<Rightarrow> Returned))))"
    unfolding r_def cur_def by (rule doMigration_outcome)
  show ?thesis
  proof (intro conjI)
    show "(\<exists>err. outcome r = Thrown err) \<longleftrightarrow>
          moduleName = []
        \<or> (version \<noteq> Latest \<and> version \<noteq> Val Undefined \<and> arg_isNaN version)
        \<or> arg_lt version (Num 0)
        \<or> (\<exists>ms. loader e moduleName = Some ms
              \<and> ((\<not> toUpgrade \<and> version = Latest)
                 \<or> (\<exists>t. resolve toUpgrade version cur (length ms) = Continues t
                      \<and> (if toUpgrade then js_lt t cur else js_gt t cur))))"
    proof (cases "validate moduleName version = Continues ()")
      case False
      then show ?thesis
        by (auto simp add: out validate_def split: if_splits)
    next
      case valid: True
      then have v: "moduleName \<noteq> []"
        "\<not> (version \<noteq> Latest \<and> version \<noteq> Val Undefined \<and> arg_isNaN version)"
        "\<not> arg_lt version (Num 0)"
        by (auto simp add: validate_def split: if_splits)
      show ?thesis
      proof (cases "loader e moduleName")
        case None
        with valid v show ?thesis by (simp add: out)
      next
        case (Some ms)
        show ?thesis
        proof (cases "resolve toUpgrade version cur (length ms)")
          case (Throws err)
          then have "\<not> toUpgrade \<and> version = Latest"
            by (auto simp add: resolve_def split: version_arg.splits jsval.splits if_splits)
          with valid Some Throws show ?thesis by (simp add: out)
        next
          case (Returns evs)
          then have "\<not> (\<not> toUpgrade \<and> version = Latest)"
            by (auto simp add: resolve_def split: version_arg.splits jsval.splits if_splits)
          with valid v Some Returns show ?thesis by (simp add: out)
        next
          case (Continues t)
          then have nl: "\<not> (\<not> toUpgrade \<and> version = Latest)"
            by (auto simp add: resolve_def split: version_arg.splits jsval.splits if_splits)
          have "(\<exists>err. guards moduleName toUpgrade t cur (length ms) = Throws err)
              \<longleftrightarrow> (if toUpgrade then js_lt t cur else js_gt t cur)"
            by (simp add: guards_def)
          with valid v Some Continues nl show ?thesis
            by (cases "guards moduleName toUpgrade t cur (length ms)")
               (simp_all add: out)
        qed
      qed
    qed
  next
    show "outcome r \<noteq> Returned \<longrightarrow>
            final r = w \<and> (\<forall>ev\<in>set (events r). \<not> is_write ev \<and> \<not> is_unit_line ev)"
    proof
      assume thrown: "outcome r \<noteq> Returned"
      have "\<not> (\<exists>ms t. validate moduleName version = Continues ()
          \<and> loader e moduleName = Some ms
          \<and> resolve toUpgrade version (fst (getVersion e moduleName (table w))) (length ms)
              = Continues t
          \<and> guards moduleName toUpgrade t (fst (getVersion e moduleName (table w))) (length ms)
              = Continues ())"
        using thrown by (auto simp add: r_def doMigration_outcome)
      then show "final r = w \<and> (\<forall>ev\<in>set (events r). \<not> is_write ev \<and> \<not> is_unit_line ev)"
        unfolding r_def by (rule doMigration_early)
    qed
  next
    show "validate moduleName version = Continues () \<and> loader e moduleName = None \<longrightarrow>
            r = \<lparr>outcome = Returned,
                 events = [Log (Starting toUpgrade moduleName), Log (CannotGetMigrations moduleName),
                           Log ErrorDump, Log (CannotGetMigrations moduleName)],
                 final = w\<rparr>"
      by (simp add: r_def doMigration_def getMigrations_def)
  next
    show "validate moduleName version = Continues () \<and> loader e moduleName \<noteq> None
            \<and> \<not> read_ok e \<longrightarrow>
            take 3 (events r) = [Log (Starting toUpgrade moduleName),
                                 Log (CannotGetVersion moduleName), Log ErrorDump]
          \<and> (outcome r = Returned \<or> outcome r = Thrown CannotRollbackToLatest)"
    proof (intro impI, elim conjE)
      assume valid: "validate moduleName version = Continues ()"
        and "loader e moduleName \<noteq> None" and noread: "\<not> read_ok e"
      then obtain ms where loaded: "loader e moduleName = Some ms" by blast
      from noread have gv: "getVersion e moduleName (table w)
          = (Undefined, [Log (CannotGetVersion moduleName), Log ErrorDump])"
        by (simp add: getVersion_def)
      from doMigration_prefix [OF valid loaded, of toUpgrade w]
      have "take 3 (events r) = [Log (Starting toUpgrade moduleName),
                                 Log (CannotGetVersion moduleName), Log ErrorDump]"
        by (auto simp add: r_def gv)
      moreover have "outcome r = Returned \<or> outcome r = Thrown CannotRollbackToLatest"
        using valid loaded
        by (auto simp add: r_def doMigration_outcome gv resolve_def guards_def js_lt_def js_gt_def
            js_add_def split: flow.splits version_arg.splits jsval.splits if_splits)
      ultimately show "take 3 (events r) = [Log (Starting toUpgrade moduleName),
                                 Log (CannotGetVersion moduleName), Log ErrorDump]
          \<and> (outcome r = Returned \<or> outcome r = Thrown CannotRollbackToLatest)"
        by simp
    qed
  next
    show "\<forall>ms t pre m post.
            validate moduleName version = Continues () \<and> loader e moduleName = Some ms
            \<and> resolve toUpgrade version cur (length ms) = Continues t
            \<and> guards moduleName toUpgrade t cur (length ms) = Continues ()
            \<and> selected_units ms toUpgrade t cur = pre @ m # post
            \<and> (\<forall>p x q. pre = p @ x # q \<longrightarrow>
                  fst (action toUpgrade x (fold (\<lambda>m s. snd (action toUpgrade m s)) p (schema w))))
            \<and> \<not> fst (action toUpgrade m (fold (\<lambda>m s. snd (action toUpgrade m s)) pre (schema w)))
            \<longrightarrow> outcome r = Returned
              \<and> events r = Log (Starting toUpgrade moduleName)
                  # snd (getVersion e moduleName (table w))
                  @ map (\<lambda>m. Log (UnitDone (cname m) toUpgrade)) pre
                  @ [Log (UnitFailed (cname m)), Log ErrorDump]"
    proof (intro allI impI, elim conjE)
      fix ms t pre m post
      assume st: "validate moduleName version = Continues ()" "loader e moduleName = Some ms"
        "resolve toUpgrade version cur (length ms) = Continues t"
        "guards moduleName toUpgrade t cur (length ms) = Continues ()"
        and sel: "selected_units ms toUpgrade t cur = pre @ m # post"
        and before: "\<forall>p x q. pre = p @ x # q \<longrightarrow>
                  fst (action toUpgrade x (fold (\<lambda>m s. snd (action toUpgrade m s)) p (schema w)))"
        and fails: "\<not> fst (action toUpgrade m
                      (fold (\<lambda>m s. snd (action toUpgrade m s)) pre (schema w)))"
      show "outcome r = Returned
              \<and> events r = Log (Starting toUpgrade moduleName)
                  # snd (getVersion e moduleName (table w))
                  @ map (\<lambda>m. Log (UnitDone (cname m) toUpgrade)) pre
                  @ [Log (UnitFailed (cname m)), Log ErrorDump]"
        by (simp add: r_def doMigration_run [OF st [unfolded cur_def]]
            execute_failure [OF sel [unfolded cur_def] before fails])
    qed
  next
    show "\<forall>ms t.
            validate moduleName version = Continues () \<and> loader e moduleName = Some ms
            \<and> resolve toUpgrade version cur (length ms) = Continues t
            \<and> guards moduleName toUpgrade t cur (length ms) = Continues ()
            \<and> is_single t cur
            \<and> js_index ms (if toUpgrade then js_sub t (Num 1) else t) = None
            \<longrightarrow> r = \<lparr>outcome = Returned,
                     events = Log (Starting toUpgrade moduleName)
                       # snd (getVersion e moduleName (table w)) @ [Log ErrorDump],
                     final = w\<rparr>"
    proof (intro allI impI, elim conjE)
      fix ms t
      assume st: "validate moduleName version = Continues ()" "loader e moduleName = Some ms"
        "resolve toUpgrade version cur (length ms) = Continues t"
        "guards moduleName toUpgrade t cur (length ms) = Continues ()"
        and single: "is_single t cur"
        and outside: "js_index ms (if toUpgrade then js_sub t (Num 1) else t) = None"
      from single outside have "execute e moduleName toUpgrade t cur ms w = ([Log ErrorDump], w)"
        by (simp add: execute_def run_single_def runMigration_def)
      then show "r = \<lparr>outcome = Returned,
                     events = Log (Starting toUpgrade moduleName)
                       # snd (getVersion e moduleName (table w)) @ [Log ErrorDump],
                     final = w\<rparr>"
        by (simp add: r_def doMigration_run [OF st [unfolded cur_def]] cur_def)
    qed
  next
    show "\<not> write_ok e \<and> (\<exists>ev\<in>set (events r). is_write ev) \<longrightarrow>
            outcome r = Returned \<and> last (events r) = Log ErrorDump \<and> table (final r) = table w"
    proof (intro impI, elim conjE bexE)
      fix ev
      assume nowrite: "\<not> write_ok e" and ev: "ev \<in> set (events r)" and wr: "is_write ev"
      from ev [unfolded r_def] obtain ms t where st: "validate moduleName version = Continues ()"
          "loader e moduleName = Some ms"
          "resolve toUpgrade version (fst (getVersion e moduleName (table w))) (length ms)
             = Continues t"
          "guards moduleName toUpgrade t (fst (getVersion e moduleName (table w))) (length ms)
             = Continues ()"
        and inex: "ev \<in> set (fst (execute e moduleName toUpgrade t
                     (fst (getVersion e moduleName (table w))) ms w))"
        by (rule doMigration_stages) (simp add: wr)
      from inex have ne: "fst (execute e moduleName toUpgrade t
                     (fst (getVersion e moduleName (table w))) ms w) \<noteq> []"
        by auto
      from execute_write_fails [OF nowrite inex wr] ne
      show "outcome r = Returned \<and> last (events r) = Log ErrorDump
          \<and> table (final r) = table w"
        by (simp add: r_def doMigration_run [OF st])
    qed
  qed
qed

theorem errors_raised_or_captured_witness:
  "doMigration example_env ''nosuch'' False Latest \<lparr>schema = [], table = []\<rparr>
     = \<lparr>outcome = Returned,
        events = [Log (Starting False ''nosuch''), Log (CannotGetMigrations ''nosuch''),
                  Log ErrorDump, Log (CannotGetMigrations ''nosuch'')],
        final = \<lparr>schema = [], table = []\<rparr>\<rparr>
   \<and> (\<exists>err. outcome (doMigration example_env ''billing'' False Latest
             \<lparr>schema = [], table = [(''billing'', Num 3)]\<rparr>) = Thrown err)
   \<and> final (doMigration example_env ''billing'' False Latest
             \<lparr>schema = [], table = [(''billing'', Num 3)]\<rparr>)
       = \<lparr>schema = [], table = [(''billing'', Num 3)]\<rparr>"
proof -
  have a: "validate ''nosuch'' Latest = Continues ()" by (simp add: validate_def)
  have b: "loader example_env ''nosuch'' = None" by (simp add: example_env_def)
  have c: "loader example_env ''billing'' = Some billing" by (simp add: example_env_def)
  from errors_raised_or_captured [of example_env "''nosuch''" False Latest
      "\<lparr>schema = [], table = []\<rparr>"] a b
  have "doMigration example_env ''nosuch'' False Latest \<lparr>schema = [], table = []\<rparr>
     = \<lparr>outcome = Returned,
        events = [Log (Starting False ''nosuch''), Log (CannotGetMigrations ''nosuch''),
                  Log ErrorDump, Log (CannotGetMigrations ''nosuch'')],
        final = \<lparr>schema = [], table = []\<rparr>\<rparr>"
    by blast
  moreover from errors_raised_or_captured [of example_env "''billing''" False Latest
      "\<lparr>schema = [], table = [(''billing'', Num 3)]\<rparr>"] c
  have "(\<exists>err. outcome (doMigration example_env ''billing'' False Latest
             \<lparr>schema = [], table = [(''billing'', Num 3)]\<rparr>) = Thrown err)
   \<and> final (doMigration example_env ''billing'' False Latest
             \<lparr>schema = [], table = [(''billing'', Num 3)]\<rparr>)
       = \<lparr>schema = [], table = [(''billing'', Num 3)]\<rparr>"
    by auto
  ultimately show ?thesis by simp
qed

section \<open>Writes to the table\<close>

text \<open>
  Claim C10. If a query that writes to the table occurs among the events of an
  invocation, it is the only one; it inserts or updates the version of the module to the
  target that the request resolves to; every selected unit has run before it, in order,
  and each action succeeded; and only one line follows it.
\<close>

theorem one_write_of_the_target:
  assumes occurs: "ev \<in> set (events (doMigration e moduleName toUpgrade version w))"
    and iswr: "is_write ev"
  shows "\<exists>ms t last.
           loader e moduleName = Some ms
         \<and> resolve toUpgrade version (fst (getVersion e moduleName (table w))) (length ms)
             = Continues t
         \<and> ev = (if strict_eq (fst (getVersion e moduleName (table w))) Null
                 then Insert moduleName t else Update moduleName t)
         \<and> (\<forall>pre m post.
               selected_units ms toUpgrade t (fst (getVersion e moduleName (table w)))
                 = pre @ m # post
               \<longrightarrow> fst (action toUpgrade m
                          (fold (\<lambda>m s. snd (action toUpgrade m s)) pre (schema w))))
         \<and> events (doMigration e moduleName toUpgrade version w) =
             Log (Starting toUpgrade moduleName)
               # snd (getVersion e moduleName (table w))
               @ map (\<lambda>m. Log (UnitDone (cname m) toUpgrade))
                   (selected_units ms toUpgrade t (fst (getVersion e moduleName (table w))))
               @ [ev, Log last]
         \<and> filter is_write (events (doMigration e moduleName toUpgrade version w)) = [ev]"
proof -
  let ?cur = "fst (getVersion e moduleName (table w))"
  from occurs obtain ms t where st: "validate moduleName version = Continues ()"
      "loader e moduleName = Some ms"
      "resolve toUpgrade version ?cur (length ms) = Continues t"
      "guards moduleName toUpgrade t ?cur (length ms) = Continues ()"
    and inex: "ev \<in> set (fst (execute e moduleName toUpgrade t ?cur ms w))"
    by (rule doMigration_stages) (simp add: iswr)
  let ?U = "updateMigrationVersion e moduleName t (strict_eq ?cur Null) (table w)"
  let ?wr = "if strict_eq ?cur Null then Insert moduleName t else Update moduleName t"
  let ?last = "if fst ?U then Finished toUpgrade moduleName t else ErrorDump"
  let ?sel = "selected_units ms toUpgrade t ?cur"
  from execute_shape [of t ?cur ms toUpgrade e moduleName w] inex iswr
  have ok: "\<forall>pre m post. ?sel = pre @ m # post
            \<longrightarrow> fst (action toUpgrade m (effect toUpgrade pre (schema w)))"
    and ex: "fst (execute e moduleName toUpgrade t ?cur ms w) =
            map (done_line toUpgrade) ?sel @ [?wr, Log ?last]"
    by (auto simp add: updateMigrationVersion_events)
  from inex iswr have ev: "ev = ?wr" by (auto simp add: ex split: if_splits)
  have evs: "events (doMigration e moduleName toUpgrade version w) =
      Log (Starting toUpgrade moduleName) # snd (getVersion e moduleName (table w))
        @ map (done_line toUpgrade) ?sel @ [ev, Log ?last]"
    by (simp add: doMigration_run [OF st] ex ev)
  have "filter is_write (snd (getVersion e moduleName (table w))) = []"
    using getVersion_quiet [of _ e moduleName "table w"] by (auto simp add: filter_empty_conv)
  moreover have "filter is_write (map (done_line toUpgrade) ?sel) = []"
    by (simp add: filter_empty_conv)
  ultimately have "filter is_write (events (doMigration e moduleName toUpgrade version w)) = [ev]"
    using iswr by (simp add: evs)
  with st(2,3) ev ok evs show ?thesis by blast
qed

theorem one_write_of_the_target_witness:
  "Insert ''billing'' (Num 3)
     \<in> set (events (doMigration example_env ''billing'' True Latest \<lparr>schema = [], table = []\<rparr>))
   \<and> filter is_write
       (events (doMigration example_env ''billing'' True Latest \<lparr>schema = [], table = []\<rparr>))
     = [Insert ''billing'' (Num 3)]"
proof -
  have run: "events (doMigration example_env ''billing'' True Latest \<lparr>schema = [], table = []\<rparr>) =
        [Log (Starting True ''billing''), Log (UnitDone ''A'' True), Log (UnitDone ''B'' True),
         Log (UnitDone ''C'' True), Insert ''billing'' (Num 3),
         Log (Finished True ''billing'' (Num 3))]"
    by (simp add: doMigration_def validate_def getMigrations_def getVersion_def
      resolve_def guards_def execute_def is_single_def run_many_def js_slice_def
      to_integer_def rel_index_def runMigration_def action_def updateMigrationVersion_def
      example_env_def billing_def journal_unit_def js_isNaN_def js_lt_def js_gt_def js_le_def
      js_sub_def js_abs_def js_or_def)
  then have h: "Insert ''billing'' (Num 3)
     \<in> set (events (doMigration example_env ''billing'' True Latest \<lparr>schema = [], table = []\<rparr>))"
    by simp
  have w: "is_write (Insert ''billing'' (Num 3))" by simp
  from one_write_of_the_target [OF h w] h show ?thesis by blast
qed

end
